theory Spec2Isabelle
  imports Main "HOL-Library.Char_ord" "HOL-Library.List_Lexorder"
begin

section \<open>rofi-rbw: a shallow embedding of \<open>src/rofi_rbw/rofi_rbw.py\<close>\<close>

text \<open>
  The program lists the entries of a credential store, lets the user pick one in a
  selector, and types or copies the username or password of the picked entry. This theory
  embeds the one source file function by function and settles the specification's
  claims about it.

  Characters: a Python \<open>str\<close> is modelled as \<open>string\<close>, each \<open>char\<close> standing for the
  code point of the same number, so the model covers the strings whose code points are
  below 256. The order on \<open>char\<close> (\<open>HOL-Library.Char_ord\<close>) is the order of code points
  and the order on lists (\<open>HOL-Library.List_Lexorder\<close>) is the lexicographic one, which is
  how Python compares two \<open>str\<close> values.
\<close>

subsection \<open>The methods of Python's \<open>str\<close> that the source calls\<close>

text \<open>\<open>str.isspace\<close> of one character, for code points below 256.\<close>

definition isspace :: "char \<Rightarrow> bool" where
  "isspace c = (of_char c \<in> {9, 10, 11, 12, 13, 28, 29, 30, 31, 32, 133, 160 :: nat})"

text \<open>\<open>s.strip()\<close>: whitespace removed from both ends.\<close>

definition str_strip :: "string \<Rightarrow> string" where
  "str_strip s = rev (dropWhile isspace (rev (dropWhile isspace s)))"

text \<open>\<open>s.startswith(p)\<close>.\<close>

fun str_startswith :: "string \<Rightarrow> string \<Rightarrow> bool" where
  "str_startswith s [] = True"
| "str_startswith [] (p # ps) = False"
| "str_startswith (c # cs) (p # ps) = (c = p \<and> str_startswith cs ps)"

text \<open>\<open>s.split(sep)\<close> for a separator of one character: never the empty list.\<close>

fun str_split :: "char \<Rightarrow> string \<Rightarrow> string list" where
  "str_split sep [] = [[]]"
| "str_split sep (c # cs) =
     (if c = sep then [] # str_split sep cs
      else (case str_split sep cs of [] \<Rightarrow> [[c]] | w # ws \<Rightarrow> (c # w) # ws))"

text \<open>
  \<open>s.replace(old, new)\<close>: every occurrence of \<open>old\<close>, found from the left and
  not overlapping, becomes \<open>new\<close>. (For an empty \<open>old\<close> Python puts \<open>new\<close> around every
  character.)
\<close>

fun str_replace :: "string \<Rightarrow> string \<Rightarrow> string \<Rightarrow> string" where
  "str_replace old new [] = (if old = [] then new else [])"
| "str_replace old new (c # cs) =
     (if old = [] then new @ concat (map (\<lambda>x. x # new) (c # cs))
      else if str_startswith (c # cs) old
        then new @ str_replace old new (drop (length old) (c # cs))
      else c # str_replace old new cs)"

text \<open>
  \<open>s.rsplit(sep, 1)\<close> for a separator of one character: one split at the last
  occurrence of \<open>sep\<close>, and the list of \<open>s\<close> alone when there is none.
\<close>

definition str_rsplit1 :: "char \<Rightarrow> string \<Rightarrow> string list" where
  "str_rsplit1 sep s =
     (if sep \<in> set s
      then [rev (tl (dropWhile (\<lambda>c. c \<noteq> sep) (rev s))), rev (takeWhile (\<lambda>c. c \<noteq> sep) (rev s))]
      else [s])"

text \<open>\<open>sep.join(xs)\<close>.\<close>

fun str_join :: "string \<Rightarrow> string list \<Rightarrow> string" where
  "str_join sep [] = []"
| "str_join sep [x] = x"
| "str_join sep (x # y # ys) = x @ sep @ str_join sep (y # ys)"

text \<open>\<open>bool(s)\<close> of a \<open>str\<close>: false for the empty string only.\<close>

definition str_bool :: "string \<Rightarrow> bool" where
  "str_bool s = (length s \<noteq> 0)"

abbreviation TAB :: char where "TAB \<equiv> CHR 0x09"
abbreviation NL :: char where "NL \<equiv> CHR 0x0A"

subsection \<open>Data\<close>

text \<open>\<open>Data = namedtuple('Data', ['username', 'password'])\<close>\<close>

record Data =
  username :: string
  password :: string

text \<open>\<open>class Action(enum.Enum)\<close>, its members in the order of their definition.\<close>

datatype Action = TYPE_PASSWORD | TYPE_USERNAME | TYPE_BOTH | COPY_USERNAME | COPY_PASSWORD

fun Action_value :: "Action \<Rightarrow> string" where
  "Action_value TYPE_PASSWORD = ''type-password''"
| "Action_value TYPE_USERNAME = ''type-username''"
| "Action_value TYPE_BOTH = ''autotype''"
| "Action_value COPY_USERNAME = ''copy-username''"
| "Action_value COPY_PASSWORD = ''copy-password''"

definition Action_members :: "Action list" where
  "Action_members = [TYPE_PASSWORD, TYPE_USERNAME, TYPE_BOTH, COPY_USERNAME, COPY_PASSWORD]"

text \<open>
  The exceptions that leave a function of the source. \<open>SystemExit\<close> carries the argument
  of \<open>sys.exit\<close>; \<open>External\<close> is an exception raised by a module that is not part of
  the source file (a backend class, \<open>shlex\<close>).
\<close>

datatype error = SystemExit "int option" | ValueError | TypeError | IndexError
  | StopIteration | External string

text \<open>
  What the interpreter makes of the result of the program: the exit status of the
  process, and whether a traceback is written. \<open>sys.exit()\<close> without an argument ends
  the process with status 0 and writes nothing.
\<close>

fun exit_status :: "error + unit \<Rightarrow> int" where
  "exit_status (Inr _) = 0"
| "exit_status (Inl (SystemExit None)) = 0"
| "exit_status (Inl (SystemExit (Some n))) = n"
| "exit_status (Inl _) = 1"

fun traceback :: "error + unit \<Rightarrow> bool" where
  "traceback (Inr _) = False"
| "traceback (Inl (SystemExit _)) = False"
| "traceback (Inl _) = True"

text \<open>The \<open>argparse.Namespace\<close> that \<open>parse_arguments\<close> returns, one field per \<open>dest\<close>.\<close>

record Namespace =
  action :: Action
  prompt :: string
  rofi_args :: "string list"
  selector :: "string option"
  clipboarder :: "string option"
  typer :: "string option"
  show_help :: bool

text \<open>
  The value given for each option on the command line or in a configuration file,
  \<open>None\<close> when the option is not given. Splitting the command line into options and
  values is the work of the argument-parsing library.
\<close>

record RawArgs =
  raw_action :: "string option"
  raw_prompt :: "string option"
  raw_rofi_args :: "string option"
  raw_selector :: "string option"
  raw_clipboarder :: "string option"
  raw_typer :: "string option"
  raw_show_help :: "string option"

text \<open>\<open>subprocess.CompletedProcess\<close>, as \<open>run(..., capture_output=True)\<close> returns it.\<close>

record CompletedProcess =
  returncode :: int
  stdout :: string
  stderr :: string

text \<open>
  The object \<open>self\<close>. The three backends bound in \<open>__init__\<close> are values of a type
  \<open>'b\<close> (their classes are outside the source file), the window handle of a type \<open>'w\<close>.
\<close>

record ('b, 'w) RofiRbw =
  args :: Namespace
  the_selector :: 'b
  the_typer :: 'b
  the_clipboarder :: 'b
  active_window :: 'w

text \<open>
  Everything outside the source file is a parameter: what each external command returns,
  which backend each \<open>best_option\<close> finds, the window the typer reports, what the user
  does in the selector, and \<open>shlex.split\<close>. \<open>run\<close> is \<open>subprocess.run\<close> without
  \<open>check\<close>, for a command that could be started and whose output could be decoded:
  it returns the completed process whatever its exit status. (A command that cannot be
  started, or whose output is not UTF-8, makes \<open>subprocess.run\<close> raise; such runs
  are outside the model.)
\<close>

record ('b, 'w) env =
  run :: "string list \<Rightarrow> CompletedProcess"
  shlex_split :: "string \<Rightarrow> error + string list"
  selector_best_option :: "string option \<Rightarrow> error + 'b"
  typer_best_option :: "string option \<Rightarrow> error + 'b"
  clipboarder_best_option :: "string option \<Rightarrow> error + 'b"
  get_active_window :: "'b \<Rightarrow> 'w"
  show_selection :: "'b \<Rightarrow> string \<Rightarrow> string \<Rightarrow> bool \<Rightarrow> string list \<Rightarrow> int \<times> string"

text \<open>The calls the program makes to the outside, in the order it makes them.\<close>

datatype ('b, 'w) call =
    Run "string list"
  | GetActiveWindow 'b
  | ShowSelection 'b string string bool "string list"
  | TypeCharacters 'b string 'w
  | CopyToClipboard 'b string

text \<open>Sequencing of steps that may raise.\<close>

definition and_then :: "error + 'a \<Rightarrow> ('a \<Rightarrow> error + 'c) \<Rightarrow> error + 'c" where
  "and_then m f = (case m of Inl e \<Rightarrow> Inl e | Inr x \<Rightarrow> f x)"

subsection \<open>\<open>parse_arguments\<close>\<close>

text \<open>
  One \<open>add_argument(..., action='store', type=conv, choices=cs, default=d)\<close>: an option
  that is not given has its default; a given value is converted by \<open>conv\<close> and, where
  choices are declared, must be one of them, or the parser reports the error and exits
  with status 2.
\<close>

definition store :: "(string \<Rightarrow> 'a) \<Rightarrow> 'a list option \<Rightarrow> 'a \<Rightarrow> string option \<Rightarrow> error + 'a" where
  "store conv choices dflt given =
     (case given of
        None \<Rightarrow> Inr dflt
      | Some v \<Rightarrow>
          (let x = conv v in
           case choices of
             None \<Rightarrow> Inr x
           | Some cs \<Rightarrow> if x \<in> set cs then Inr x else Inl (SystemExit (Some 2))))"

text \<open>
  The options in the order of their declaration; then \<open>rofi_args\<close> is split by
  \<open>shlex.split\<close> and \<open>action\<close> is replaced by the member of \<open>Action\<close> with that value
  (\<open>next\<close> of a generator raises \<open>StopIteration\<close> when there is none).
\<close>

definition parse_arguments :: "('b, 'w) env \<Rightarrow> RawArgs \<Rightarrow> error + Namespace" where
  "parse_arguments env raw =
     and_then (store id (Some (map Action_value Action_members))
                 (Action_value TYPE_PASSWORD) (raw_action raw)) (\<lambda>a.
     and_then (store id None ''Select entry'' (raw_prompt raw)) (\<lambda>p.
     and_then (store id None '''' (raw_rofi_args raw)) (\<lambda>r.
     and_then (store Some (Some [Some ''rofi'', Some ''wofi'']) None (raw_selector raw)) (\<lambda>sel.
     and_then (store Some (Some [Some ''xsel'', Some ''xclip'', Some ''wl-copy'']) None
                 (raw_clipboarder raw)) (\<lambda>clip.
     and_then (store Some (Some [Some ''xdotool'', Some ''wtype'']) None (raw_typer raw)) (\<lambda>ty.
     and_then (store str_bool None True (raw_show_help raw)) (\<lambda>sh.
     and_then (shlex_split env r) (\<lambda>split_args.
     and_then (case find (\<lambda>x. Action_value x = a) Action_members of
                 None \<Rightarrow> Inl StopIteration
               | Some x \<Rightarrow> Inr x) (\<lambda>act.
     Inr \<lparr>action = act, prompt = p, rofi_args = split_args, selector = sel,
          clipboarder = clip, typer = ty, show_help = sh\<rparr>)))))))))"

subsection \<open>\<open>__init__\<close>\<close>

text \<open>
  The arguments are parsed, the three backends are bound, and the typer is asked for the
  active window. An exception of any step leaves the constructor.
\<close>

definition init :: "('b, 'w) env \<Rightarrow> RawArgs \<Rightarrow> ('b, 'w) call list \<times> (error + ('b, 'w) RofiRbw)" where
  "init env raw =
     (case parse_arguments env raw of
        Inl e \<Rightarrow> ([], Inl e)
      | Inr a \<Rightarrow>
     (case selector_best_option env (selector a) of
        Inl e \<Rightarrow> ([], Inl e)
      | Inr s \<Rightarrow>
     (case typer_best_option env (typer a) of
        Inl e \<Rightarrow> ([], Inl e)
      | Inr t \<Rightarrow>
     (case clipboarder_best_option env (clipboarder a) of
        Inl e \<Rightarrow> ([], Inl e)
      | Inr c \<Rightarrow>
          ([GetActiveWindow t],
           Inr \<lparr>args = a, the_selector = s, the_typer = t, the_clipboarder = c,
                active_window = get_active_window env t\<rparr>)))))"

subsection \<open>\<open>choose_action_from_return_code\<close>\<close>

definition choose_action_from_return_code ::
  "int \<Rightarrow> ('b, 'w) RofiRbw \<Rightarrow> error + ('b, 'w) RofiRbw" where
  "choose_action_from_return_code return_code self =
     (if return_code = 1 then Inl (SystemExit None)
      else if return_code = 12 then Inr (self\<lparr>args := (args self)\<lparr>action := TYPE_PASSWORD\<rparr>\<rparr>)
      else if return_code = 11 then Inr (self\<lparr>args := (args self)\<lparr>action := TYPE_USERNAME\<rparr>\<rparr>)
      else if return_code = 10 then Inr (self\<lparr>args := (args self)\<lparr>action := TYPE_BOTH\<rparr>\<rparr>)
      else if return_code = 20 then Inr (self\<lparr>args := (args self)\<lparr>action := COPY_PASSWORD\<rparr>\<rparr>)
      else if return_code = 21 then Inr (self\<lparr>args := (args self)\<lparr>action := COPY_USERNAME\<rparr>\<rparr>)
      else Inr self)"

subsection \<open>\<open>execute_action\<close>\<close>

text \<open>The calls to the typer and the clipboarder that the chain of comparisons makes.\<close>

definition execute_action :: "('b, 'w) RofiRbw \<Rightarrow> Data \<Rightarrow> ('b, 'w) call list" where
  "execute_action self data =
     (if action (args self) = TYPE_PASSWORD
        then [TypeCharacters (the_typer self) (password data) (active_window self)]
      else if action (args self) = TYPE_USERNAME
        then [TypeCharacters (the_typer self) (username data) (active_window self)]
      else if action (args self) = TYPE_BOTH
        then [TypeCharacters (the_typer self) (username data @ [TAB] @ password data)
                (active_window self)]
      else if action (args self) = COPY_PASSWORD
        then [CopyToClipboard (the_clipboarder self) (password data)]
      else if action (args self) = COPY_USERNAME
        then [CopyToClipboard (the_clipboarder self) (username data)]
      else [])"

subsection \<open>\<open>extract_username\<close> and \<open>get_data\<close>\<close>

fun extract_username :: "string list \<Rightarrow> string" where
  "extract_username [] = ''''"
| "extract_username (resultline # result) =
     (if str_startswith resultline ''Username:''
      then str_replace ''Username: '' '''' resultline
      else extract_username result)"

text \<open>The command of \<open>get_data\<close>: \<open>--folder\<close> is appended for a folder that is not empty.\<close>

definition get_command :: "string \<Rightarrow> string \<Rightarrow> string list" where
  "get_command name folder =
     [''rbw'', ''get'', ''--full'', name] @ (if folder \<noteq> '''' then [''--folder'', folder] else [])"

text \<open>
  The exit status of the command is not read. \<open>result[0]\<close> raises \<open>IndexError\<close> on an
  empty list.
\<close>

definition get_data :: "('b, 'w) env \<Rightarrow> string \<Rightarrow> string \<Rightarrow> ('b, 'w) call list \<times> (error + Data)" where
  "get_data env name folder =
     (let command = get_command name folder;
          result = str_split NL (stdout (run env command))
      in case result of
           [] \<Rightarrow> ([Run command], Inl IndexError)
         | first # _ \<Rightarrow>
             ([Run command],
              Inr \<lparr>username = extract_username result, password = str_strip first\<rparr>))"

text \<open>
  A call of \<open>self.get_data\<close> with the given positional arguments. The method is declared
  as \<open>get_data(self, name, folder)\<close>, without defaults: a call with another number of
  arguments raises \<open>TypeError\<close> before the body runs.
\<close>

definition get_data_call :: "('b, 'w) env \<Rightarrow> string list \<Rightarrow> ('b, 'w) call list \<times> (error + Data)" where
  "get_data_call env positional =
     (case positional of
        [name, folder] \<Rightarrow> get_data env name folder
      | _ \<Rightarrow> ([], Inl TypeError))"

subsection \<open>\<open>main\<close>\<close>

definition ls_command :: "string list" where
  "ls_command = [''rbw'', ''ls'', ''--fields'', ''name,user'']"

text \<open>
  The entries made of the standard output of the listing command (the first two
  statements of \<open>main\<close>).
\<close>

definition entries_of_stdout :: "string \<Rightarrow> string list" where
  "entries_of_stdout out = sort (map (str_replace [TAB] ''/'') (str_split NL (str_strip out)))"

text \<open>
  The text given to the selector, the selector's answer and the call that asks for it
  (the third statement of \<open>main\<close>).
\<close>

definition entries_text :: "('b, 'w) env \<Rightarrow> string" where
  "entries_text env = str_join [NL] (entries_of_stdout (stdout (run env ls_command)))"

definition selection :: "('b, 'w) env \<Rightarrow> ('b, 'w) RofiRbw \<Rightarrow> int \<times> string" where
  "selection env self =
     show_selection env (the_selector self) (entries_text env) (prompt (args self))
       (show_help (args self)) (rofi_args (args self))"

definition selection_call :: "('b, 'w) env \<Rightarrow> ('b, 'w) RofiRbw \<Rightarrow> ('b, 'w) call" where
  "selection_call env self =
     ShowSelection (the_selector self) (entries_text env) (prompt (args self))
       (show_help (args self)) (rofi_args (args self))"

text \<open>
  The method \<open>main\<close>. The exit status of the listing command is not read. The result of
  \<open>rsplit\<close> is unpacked into two names, which raises \<open>ValueError\<close> for a list of another
  length; \<open>get_data\<close> is called with one positional argument.
\<close>

definition main :: "('b, 'w) env \<Rightarrow> ('b, 'w) RofiRbw \<Rightarrow> ('b, 'w) call list \<times> (error + unit)" where
  "main env self =
     (let (returncode, entry) = selection env self;
          calls = [Run ls_command, selection_call env self]
      in case choose_action_from_return_code returncode self of
           Inl e \<Rightarrow> (calls, Inl e)
         | Inr self' \<Rightarrow>
             (case str_rsplit1 (CHR ''/'') entry of
                [selected_folder, selected_entry] \<Rightarrow>
                  (case get_data_call env [str_strip selected_entry] of
                     (calls', Inl e) \<Rightarrow> (calls @ calls', Inl e)
                   | (calls', Inr data) \<Rightarrow>
                       (calls @ calls' @ execute_action self' data, Inr ()))
              | _ \<Rightarrow> (calls, Inl ValueError)))"

text \<open>The function \<open>main\<close> of the module: \<open>RofiRbw().main()\<close>.\<close>

definition main_entry :: "('b, 'w) env \<Rightarrow> RawArgs \<Rightarrow> ('b, 'w) call list \<times> (error + unit)" where
  "main_entry env raw =
     (case init env raw of
        (calls, Inl e) \<Rightarrow> (calls, Inl e)
      | (calls, Inr self) \<Rightarrow> (case main env self of (calls', r) \<Rightarrow> (calls @ calls', r)))"

subsection \<open>Concrete runs\<close>

text \<open>
  The standard output of the listing command for a list of records: one line for each,
  ended by a newline.
\<close>

definition listing_stdout :: "string list \<Rightarrow> string" where
  "listing_stdout records = concat (map (\<lambda>r. r @ [NL]) records)"

text \<open>
  An environment for concrete runs: the listing command and the get command return the
  given processes, the user's answer in the selector is given, the first backend of each
  kind is installed, and \<open>shlex.split\<close> is what it is on words separated by single
  spaces.
\<close>

definition sample_env :: "CompletedProcess \<Rightarrow> CompletedProcess \<Rightarrow> int \<times> string \<Rightarrow> (string, nat) env" where
  "sample_env ls got picked =
     \<lparr>run = (\<lambda>command. if command = ls_command then ls else got),
      shlex_split = (\<lambda>s. Inr (filter (\<lambda>w. w \<noteq> []) (str_split (CHR '' '') s))),
      selector_best_option = (\<lambda>choice. Inr (case choice of None \<Rightarrow> ''rofi'' | Some n \<Rightarrow> n)),
      typer_best_option = (\<lambda>choice. Inr (case choice of None \<Rightarrow> ''xdotool'' | Some n \<Rightarrow> n)),
      clipboarder_best_option = (\<lambda>choice. Inr (case choice of None \<Rightarrow> ''xsel'' | Some n \<Rightarrow> n)),
      get_active_window = (\<lambda>_. 42),
      show_selection = (\<lambda>_ _ _ _ _. picked)\<rparr>"

definition exited :: "int \<Rightarrow> string \<Rightarrow> CompletedProcess" where
  "exited status out = \<lparr>returncode = status, stdout = out, stderr = ''''\<rparr>"

definition no_args :: RawArgs where
  "no_args = \<lparr>raw_action = None, raw_prompt = None, raw_rofi_args = None, raw_selector = None,
     raw_clipboarder = None, raw_typer = None, raw_show_help = None\<rparr>"

definition sample_self :: "(string, nat) RofiRbw" where
  "sample_self =
     \<lparr>args = \<lparr>action = TYPE_PASSWORD, prompt = ''Select entry'', rofi_args = [],
              selector = None, clipboarder = None, typer = None, show_help = True\<rparr>,
      the_selector = ''rofi'', the_typer = ''xdotool'', the_clipboarder = ''xsel'',
      active_window = 42\<rparr>"

text \<open>
  A store with the one entry \<open>Work<TAB>user1\<close>, whose full output is the password
  \<open>secretpw\<close> and the username \<open>bob\<close>; the user picks the entry with exit code 0.
\<close>

definition store_env :: "(string, nat) env" where
  "store_env = sample_env (exited 0 (listing_stdout [''Work'' @ [TAB] @ ''user1'']))
     (exited 0 (''secretpw'' @ [NL] @ ''Username: bob'' @ [NL])) (0, ''Work/user1'' @ [NL])"

text \<open>The same store, the username of the entry being \<open>a Username: b\<close>.\<close>

definition repeated_env :: "(string, nat) env" where
  "repeated_env = sample_env (exited 0 (listing_stdout [''Work'' @ [TAB] @ ''user1'']))
     (exited 0 (''secretpw'' @ [NL] @ ''Username: a Username: b'' @ [NL]))
     (0, ''Work/user1'' @ [NL])"

text \<open>
  A listing command that prints one record and exits with status 1; the user cancels in
  the selector.
\<close>

definition failed_ls_env :: "(string, nat) env" where
  "failed_ls_env = sample_env (exited 1 (listing_stdout [''a'' @ [TAB] @ ''b'']))
     (exited 0 '''') (1, '''')"

text \<open>A get command that prints nothing and exits with status 1.\<close>

definition failed_get_env :: "(string, nat) env" where
  "failed_get_env = sample_env (exited 0 (listing_stdout [''Work'' @ [TAB] @ ''user1'']))
     (exited 1 '''') (0, ''Work/user1'' @ [NL])"

text \<open>
  A store with the one entry \<open>alice\<close>, which has no user: the record is \<open>alice<TAB>\<close>,
  the line shown is \<open>alice\<close>, and the user picks it with exit code 0.
\<close>

definition plain_env :: "(string, nat) env" where
  "plain_env = sample_env (exited 0 (listing_stdout [''alice'' @ [TAB]]))
     (exited 0 (''secretpw'' @ [NL] @ ''Username: bob'' @ [NL])) (0, ''alice'' @ [NL])"

section \<open>Properties\<close>

subsection \<open>What every run of \<open>main\<close> does\<close>

lemma str_split_not_Nil: "str_split sep s \<noteq> []"
  by (induction s) (auto split: list.splits)

lemma get_data_call_one: "get_data_call env [x] = ([], Inl TypeError)"
  by (simp add: get_data_call_def)

lemma str_rsplit1_cases:
  "(sep \<notin> set s \<and> str_rsplit1 sep s = [s]) \<or> (sep \<in> set s \<and> (\<exists>a b. str_rsplit1 sep s = [a, b]))"
  by (simp add: str_rsplit1_def)

text \<open>
  The listing command is run and the selector is shown; then the run ends in one of three
  ways: the user cancelled, the picked line has no \<open>/\<close> and cannot be unpacked, or it
  has one and \<open>get_data\<close> is called with too few arguments.
\<close>

lemma main_result:
  "main env self =
     ([Run ls_command, selection_call env self],
      if fst (selection env self) = 1 then Inl (SystemExit None)
      else if CHR ''/'' \<in> set (snd (selection env self)) then Inl TypeError
      else Inl ValueError)"
proof (cases "selection env self")
  case (Pair rc entry)
  show ?thesis
  proof (cases "rc = 1")
    case True
    with Pair show ?thesis
      by (simp add: main_def choose_action_from_return_code_def)
  next
    case False
    then have "\<exists>self'. choose_action_from_return_code rc self = Inr self'"
      by (simp add: choose_action_from_return_code_def)
    then obtain self' where c: "choose_action_from_return_code rc self = Inr self'" ..
    from str_rsplit1_cases [of "CHR ''/''" entry] show ?thesis
    proof
      assume "CHR ''/'' \<notin> set entry \<and> str_rsplit1 CHR ''/'' entry = [entry]"
      with Pair False c show ?thesis by (simp add: main_def)
    next
      assume "CHR ''/'' \<in> set entry \<and> (\<exists>a b. str_rsplit1 CHR ''/'' entry = [a, b])"
      then obtain a b where "CHR ''/'' \<in> set entry" "str_rsplit1 CHR ''/'' entry = [a, b]"
        by blast
      with Pair False c show ?thesis by (simp add: main_def get_data_call_one)
    qed
  qed
qed

subsection \<open>The action chosen from the selector's exit code\<close>

text \<open>
  Claim C2. Exit code 1 of the selector ends the program at once: \<open>sys.exit()\<close> is
  raised, the process ends with status 0 and without a traceback, and a run of \<open>main\<close>
  whose selector returns 1 has made no call but the listing and the selector. Code 10
  sets the action to type both fields, 11 to type the username, 12 to type the password,
  20 to copy the password, 21 to copy the username; every other code, 0 among them,
  leaves the object, and so the configured action, as it is.
\<close>

theorem choose_action_table:
  "choose_action_from_return_code 1 self = Inl (SystemExit None)
   \<and> exit_status (Inl (SystemExit None)) = 0
   \<and> \<not> traceback (Inl (SystemExit None))
   \<and> (fst (selection env self) = 1 \<longrightarrow>
        main env self = ([Run ls_command, selection_call env self], Inl (SystemExit None)))
   \<and> choose_action_from_return_code 10 self = Inr (self\<lparr>args := (args self)\<lparr>action := TYPE_BOTH\<rparr>\<rparr>)
   \<and> choose_action_from_return_code 11 self = Inr (self\<lparr>args := (args self)\<lparr>action := TYPE_USERNAME\<rparr>\<rparr>)
   \<and> choose_action_from_return_code 12 self = Inr (self\<lparr>args := (args self)\<lparr>action := TYPE_PASSWORD\<rparr>\<rparr>)
   \<and> choose_action_from_return_code 20 self = Inr (self\<lparr>args := (args self)\<lparr>action := COPY_PASSWORD\<rparr>\<rparr>)
   \<and> choose_action_from_return_code 21 self = Inr (self\<lparr>args := (args self)\<lparr>action := COPY_USERNAME\<rparr>\<rparr>)
   \<and> (rc \<notin> {1, 10, 11, 12, 20, 21} \<longrightarrow> choose_action_from_return_code rc self = Inr self)"
  by (simp add: choose_action_from_return_code_def main_result)

theorem choose_action_table_witness:
  "fst (selection (sample_env (exited 0 '''') (exited 0 '''') (1, ''a/b'')) sample_self) = 1
   \<and> main (sample_env (exited 0 '''') (exited 0 '''') (1, ''a/b'')) sample_self =
       ([Run ls_command,
         selection_call (sample_env (exited 0 '''') (exited 0 '''') (1, ''a/b'')) sample_self],
        Inl (SystemExit None))
   \<and> (0::int) \<notin> {1, 10, 11, 12, 20, 21}
   \<and> choose_action_from_return_code 0 sample_self = Inr sample_self
   \<and> action (args sample_self) = TYPE_PASSWORD"
  using choose_action_table
    [of sample_self "sample_env (exited 0 '''') (exited 0 '''') (1, ''a/b'')" 0]
  by (simp add: selection_def sample_env_def sample_self_def)

subsection \<open>The entry list is never empty\<close>

lemma entries_of_stdout_not_Nil: "entries_of_stdout out \<noteq> []"
proof -
  have "length (entries_of_stdout out) = length (str_split NL (str_strip out))"
    by (simp add: entries_of_stdout_def)
  with str_split_not_Nil [of NL "str_strip out"] show ?thesis by auto
qed

text \<open>
  Claim C10. For an empty standard output of the listing command the entry list is the
  list of the empty string alone, and no output whatever gives the empty list; in a run
  whose listing printed nothing the selector is still shown, with one blank line.
\<close>

theorem entries_never_empty:
  "entries_of_stdout '''' = ['''']
   \<and> entries_of_stdout out \<noteq> []
   \<and> (stdout (run env ls_command) = '''' \<longrightarrow>
        fst (main env self) =
          [Run ls_command,
           ShowSelection (the_selector self) '''' (prompt (args self)) (show_help (args self))
             (rofi_args (args self))])"
  by (simp add: entries_of_stdout_not_Nil main_result selection_call_def entries_text_def)
     (simp add: entries_of_stdout_def str_strip_def)

theorem entries_never_empty_witness:
  "stdout (run (sample_env (exited 0 '''') (exited 0 '''') (0, '''')) ls_command) = ''''
   \<and> fst (main (sample_env (exited 0 '''') (exited 0 '''') (0, '''')) sample_self) =
       [Run ls_command, ShowSelection ''rofi'' '''' ''Select entry'' True []]"
proof -
  let ?env = "sample_env (exited 0 '''') (exited 0 '''') (0, '''')"
  have silent: "stdout (run ?env ls_command) = ''''"
    by (simp add: sample_env_def exited_def)
  from entries_never_empty [of _ ?env sample_self] silent
  have "fst (main ?env sample_self) =
      [Run ls_command,
       ShowSelection (the_selector sample_self) '''' (prompt (args sample_self))
         (show_help (args sample_self)) (rofi_args (args sample_self))]"
    by blast
  with silent show ?thesis
    by (simp add: sample_self_def)
qed

subsection \<open>The option \<open>--show-help\<close>\<close>

lemma and_then_Inr: "and_then m f = Inr y \<Longrightarrow> \<exists>x. m = Inr x \<and> f x = Inr y"
  by (cases m) (simp_all add: and_then_def)

lemma store_no_choices: "store conv None d (Some v) = Inr (conv v)"
  by (simp add: store_def)

text \<open>
  Claim C9. The option is declared with \<open>type=bool\<close>, so a given value is converted by
  \<open>bool\<close> on the string: whenever the arguments parse, \<open>show_help\<close> is true for every
  given value but the empty string, for which it is false. (An option that is not given
  keeps the default, true.)
\<close>

theorem show_help_coercion:
  "(raw_show_help raw = Some s \<and> parse_arguments env raw = Inr ns \<longrightarrow> show_help ns = (s \<noteq> ''''))
   \<and> (raw_show_help raw = None \<and> parse_arguments env raw = Inr ns \<longrightarrow> show_help ns)"
proof (intro conjI impI)
  assume "raw_show_help raw = Some s \<and> parse_arguments env raw = Inr ns"
  then show "show_help ns = (s \<noteq> '''')"
    unfolding parse_arguments_def
    by (auto dest!: and_then_Inr simp: store_no_choices str_bool_def)
next
  assume "raw_show_help raw = None \<and> parse_arguments env raw = Inr ns"
  then show "show_help ns"
    unfolding parse_arguments_def
    by (auto dest!: and_then_Inr simp: store_def)
qed

theorem show_help_coercion_witness:
  "parse_arguments (sample_env (exited 0 '''') (exited 0 '''') (0, ''''))
       (no_args\<lparr>raw_show_help := Some ''false''\<rparr>) = Inr (args sample_self)
   \<and> show_help (args sample_self)
   \<and> parse_arguments (sample_env (exited 0 '''') (exited 0 '''') (0, ''''))
       (no_args\<lparr>raw_show_help := Some ''''\<rparr>) = Inr ((args sample_self)\<lparr>show_help := False\<rparr>)"
proof -
  let ?env = "sample_env (exited 0 '''') (exited 0 '''') (0, '''')"
  let ?raw = "no_args\<lparr>raw_show_help := Some ''false''\<rparr>"
  have given: "raw_show_help ?raw = Some ''false''"
    by (simp add: no_args_def)
  have parsed: "parse_arguments ?env ?raw = Inr (args sample_self)"
    by (simp add: parse_arguments_def and_then_def store_def sample_env_def no_args_def
        sample_self_def Action_members_def str_bool_def)
  have empty: "parse_arguments ?env (no_args\<lparr>raw_show_help := Some ''''\<rparr>)
      = Inr ((args sample_self)\<lparr>show_help := False\<rparr>)"
    by (simp add: parse_arguments_def and_then_def store_def sample_env_def no_args_def
        sample_self_def Action_members_def str_bool_def)
  from show_help_coercion [of ?raw "''false''" ?env "args sample_self"] given parsed
  have "show_help (args sample_self) = (''false'' \<noteq> '''')"
    by blast
  then have "show_help (args sample_self)" by simp
  with parsed empty show ?thesis by blast
qed

subsection \<open>The executor\<close>

lemma init_Inr:
  assumes "init env raw = (calls, Inr self)"
  shows "calls = [GetActiveWindow (the_typer self)]
         \<and> active_window self = get_active_window env (the_typer self)"
  using assms by (auto simp: init_def split: sum.splits)

lemma choose_action_keeps:
  assumes "choose_action_from_return_code rc self = Inr self'"
  shows "active_window self' = active_window self \<and> the_typer self' = the_typer self
         \<and> the_clipboarder self' = the_clipboarder self"
  using assms by (auto simp: choose_action_from_return_code_def split: if_splits)

lemma main_entry_calls:
  assumes "init env raw = (calls, Inr self)"
  shows "fst (main_entry env raw) = calls @ [Run ls_command, selection_call env self]"
  using assms by (simp add: main_entry_def main_result)

text \<open>
  Claim C8. \<open>execute_action\<close> makes exactly one call, whatever the action and the
  credential: the password or the username is typed, or both are typed as one string
  with a tab between them, or the password or the username is copied. What is typed goes
  to the window stored in the object. That window is the one the typer reported in
  \<open>__init__\<close>: the question to the typer is the first call of the program, before the
  listing and the selector, and choosing the action from the exit code changes neither
  the window nor the typer.
\<close>

theorem execute_action_one_call:
  "(action (args self) = TYPE_PASSWORD \<longrightarrow>
      execute_action self d = [TypeCharacters (the_typer self) (password d) (active_window self)])
   \<and> (action (args self) = TYPE_USERNAME \<longrightarrow>
      execute_action self d = [TypeCharacters (the_typer self) (username d) (active_window self)])
   \<and> (action (args self) = TYPE_BOTH \<longrightarrow>
      execute_action self d =
        [TypeCharacters (the_typer self) (username d @ [TAB] @ password d) (active_window self)])
   \<and> (action (args self) = COPY_PASSWORD \<longrightarrow>
      execute_action self d = [CopyToClipboard (the_clipboarder self) (password d)])
   \<and> (action (args self) = COPY_USERNAME \<longrightarrow>
      execute_action self d = [CopyToClipboard (the_clipboarder self) (username d)])
   \<and> length (execute_action self d) = 1
   \<and> (init env raw = (calls, Inr self) \<longrightarrow>
        active_window self = get_active_window env (the_typer self)
        \<and> fst (main_entry env raw) =
            [GetActiveWindow (the_typer self), Run ls_command, selection_call env self])
   \<and> (choose_action_from_return_code rc self = Inr self' \<longrightarrow>
        active_window self' = active_window self \<and> the_typer self' = the_typer self)"
proof -
  have one: "length (execute_action self d) = 1"
    by (cases "action (args self)") (simp_all add: execute_action_def)
  have start: "init env raw = (calls, Inr self) \<longrightarrow>
        active_window self = get_active_window env (the_typer self)
        \<and> fst (main_entry env raw) =
            [GetActiveWindow (the_typer self), Run ls_command, selection_call env self]"
    using init_Inr [of env raw calls self] main_entry_calls [of env raw calls self] by simp
  have keep: "choose_action_from_return_code rc self = Inr self' \<longrightarrow>
        active_window self' = active_window self \<and> the_typer self' = the_typer self"
    using choose_action_keeps [of rc self self'] by simp
  from one start keep show ?thesis
    by (simp add: execute_action_def)
qed

theorem execute_action_one_call_witness:
  "init (sample_env (exited 0 '''') (exited 0 '''') (10, ''a/b'')) no_args
      = ([GetActiveWindow ''xdotool''], Inr sample_self)
   \<and> choose_action_from_return_code 10 sample_self
      = Inr (sample_self\<lparr>args := (args sample_self)\<lparr>action := TYPE_BOTH\<rparr>\<rparr>)
   \<and> execute_action (sample_self\<lparr>args := (args sample_self)\<lparr>action := TYPE_BOTH\<rparr>\<rparr>)
        \<lparr>username = ''bob'', password = ''secretpw''\<rparr>
      = [TypeCharacters ''xdotool'' (''bob'' @ [TAB] @ ''secretpw'') 42]
   \<and> fst (main_entry (sample_env (exited 0 '''') (exited 0 '''') (10, ''a/b'')) no_args)
      = [GetActiveWindow ''xdotool'', Run ls_command,
         selection_call (sample_env (exited 0 '''') (exited 0 '''') (10, ''a/b'')) sample_self]"
proof -
  let ?env = "sample_env (exited 0 '''') (exited 0 '''') (10, ''a/b'')"
  let ?both = "sample_self\<lparr>args := (args sample_self)\<lparr>action := TYPE_BOTH\<rparr>\<rparr>"
  let ?d = "\<lparr>username = ''bob'', password = ''secretpw''\<rparr>"
  have started: "init ?env no_args = ([GetActiveWindow ''xdotool''], Inr sample_self)"
    by (simp add: init_def parse_arguments_def and_then_def store_def sample_env_def
        no_args_def sample_self_def Action_members_def)
  have chosen: "choose_action_from_return_code 10 sample_self = Inr ?both"
    by (simp add: choose_action_from_return_code_def)
  have both: "action (args ?both) = TYPE_BOTH"
    by simp
  from execute_action_one_call [of ?both ?d] both
  have typed: "execute_action ?both ?d =
      [TypeCharacters (the_typer ?both) (username ?d @ [TAB] @ password ?d) (active_window ?both)]"
    by blast
  from execute_action_one_call [of sample_self _ ?env no_args "[GetActiveWindow ''xdotool'']"]
    started
  have "fst (main_entry ?env no_args) =
      [GetActiveWindow (the_typer sample_self), Run ls_command, selection_call ?env sample_self]"
    by blast
  with started chosen typed show ?thesis
    by (simp add: sample_self_def)
qed

subsection \<open>The entry lister\<close>

lemma str_replace_char:
  "str_replace [a] [b] s = map (\<lambda>c. if c = a then b else c) s"
  by (induction s) simp_all

lemma str_split_no_sep: "sep \<notin> set s \<Longrightarrow> str_split sep s = [s]"
  by (induction s) auto

lemma str_split_append:
  "sep \<notin> set r \<Longrightarrow> str_split sep (r @ sep # s) = r # str_split sep s"
  by (induction r) auto

lemma str_join_Cons: "str_join sep (x # xs) = (if xs = [] then x else x @ sep @ str_join sep xs)"
  by (cases xs) simp_all

lemma str_split_join:
  "rs \<noteq> [] \<Longrightarrow> \<forall>r\<in>set rs. sep \<notin> set r \<Longrightarrow> str_split sep (str_join [sep] rs) = rs"
  by (induction rs) (auto simp: str_join_Cons str_split_no_sep str_split_append)

lemma listing_stdout_join: "rs \<noteq> [] \<Longrightarrow> listing_stdout rs = str_join [NL] rs @ [NL]"
  unfolding listing_stdout_def
  by (induction rs) (auto simp: str_join_Cons)

lemma hd_str_join: "rs \<noteq> [] \<Longrightarrow> hd rs \<noteq> [] \<Longrightarrow> hd (str_join sep rs) = hd (hd rs)"
  by (cases rs) (auto simp: str_join_Cons)

lemma last_str_join:
  "rs \<noteq> [] \<Longrightarrow> last rs \<noteq> [] \<Longrightarrow> str_join sep rs \<noteq> [] \<and> last (str_join sep rs) = last (last rs)"
  by (induction rs) (auto simp: str_join_Cons)

lemma isspace_NL: "isspace NL"
  by (simp add: isspace_def)

text \<open>Stripping a text that neither begins nor ends with whitespace removes its final newline only.\<close>

lemma str_strip_line:
  assumes "xs \<noteq> []" "\<not> isspace (hd xs)" "\<not> isspace (last xs)"
  shows "str_strip (xs @ [NL]) = xs"
proof -
  from assms obtain c cs where xs: "xs = c # cs" "\<not> isspace c"
    by (cases xs) auto
  from assms obtain ys z where xs': "xs = ys @ [z]" "\<not> isspace z"
    by (cases xs rule: rev_cases) auto
  have "dropWhile isspace (xs @ [NL]) = xs @ [NL]"
    using xs by simp
  moreover have "dropWhile isspace (rev (xs @ [NL])) = rev xs"
    using xs' by (simp add: isspace_NL)
  ultimately show ?thesis by (simp add: str_strip_def)
qed

text \<open>
  Where the first record begins with a character that is not whitespace and the last
  record ends with one, stripping removes the final newline only: the entries are the
  records with every tab replaced by \<open>/\<close>, in ascending order of code points.
\<close>

lemma entries_of_clean_records:
  assumes "rs \<noteq> []" and "\<forall>r\<in>set rs. NL \<notin> set r"
    and "hd rs \<noteq> []" and "\<not> isspace (hd (hd rs))"
    and "last rs \<noteq> []" and "\<not> isspace (last (last rs))"
  shows "entries_of_stdout (listing_stdout rs)
           = sort (map (map (\<lambda>c. if c = TAB then CHR ''/'' else c)) rs)
         \<and> sorted (entries_of_stdout (listing_stdout rs))"
proof -
  let ?j = "str_join [NL] rs"
  from assms last_str_join [of rs "[NL]"] have j: "?j \<noteq> []" "last ?j = last (last rs)"
    by simp_all
  from assms hd_str_join [of rs "[NL]"] have h: "hd ?j = hd (hd rs)"
    by simp
  from j h assms have "str_strip (?j @ [NL]) = ?j"
    by (simp add: str_strip_line)
  with assms have "str_split NL (str_strip (listing_stdout rs)) = rs"
    by (simp add: listing_stdout_join str_split_join)
  then have "entries_of_stdout (listing_stdout rs)
      = sort (map (map (\<lambda>c. if c = TAB then CHR ''/'' else c)) rs)"
    by (simp add: entries_of_stdout_def str_replace_char [of TAB "CHR ''/''", abs_def])
  then show ?thesis by simp
qed

text \<open>
  Claim C5. The claim is that for every list of records the entries are the records with
  the tab replaced by \<open>/\<close>, without the blank line of the final newline, in ascending
  order. The code does that for the records of the specification's example, \<open>Work/user1\<close>
  coming before \<open>alice\<close>, but not for every list: to drop the final newline it strips
  the whole output, and the tab of a last record without user is stripped with it. For
  the records \<open>Work<TAB>user1\<close> and \<open>alice<TAB>\<close> the entries are \<open>Work/user1\<close> and
  \<open>alice\<close>, where replacing the tab in each record gives \<open>Work/user1\<close> and \<open>alice/\<close>;
  the same record \<open>alice<TAB>\<close> is shown as \<open>alice/\<close> when another record follows it.
\<close>

theorem entries_last_record_stripped:
  "entries_of_stdout (listing_stdout [''Work'' @ [TAB] @ ''user1'', ''alice''])
     = [''Work/user1'', ''alice'']
   \<and> entries_of_stdout (listing_stdout [''Work'' @ [TAB] @ ''user1'', ''alice'' @ [TAB]])
     = [''Work/user1'', ''alice'']
   \<and> sort (map (str_replace [TAB] ''/'') [''Work'' @ [TAB] @ ''user1'', ''alice'' @ [TAB]])
     = [''Work/user1'', ''alice/'']
   \<and> entries_of_stdout (listing_stdout [''alice'' @ [TAB], ''bob'' @ [TAB] @ ''user2''])
     = [''alice/'', ''bob/user2'']"
  by (simp add: entries_of_stdout_def listing_stdout_def str_strip_def isspace_def)

subsection \<open>The credential fetcher\<close>

lemma hd_str_split: "\<exists>rest. str_split sep s = takeWhile (\<lambda>c. c \<noteq> sep) s # rest"
  by (induction s) auto

lemma extract_username_find:
  "extract_username ls =
     (case find (\<lambda>l. str_startswith l ''Username:'') ls of
        None \<Rightarrow> '''' | Some l \<Rightarrow> str_replace ''Username: '' '''' l)"
  by (induction ls) simp_all

lemma str_startswith_length: "str_startswith s p \<Longrightarrow> length p \<le> length s"
  by (induction s p rule: str_startswith.induct) simp_all

lemma str_startswith_append: "str_startswith (p @ s) p"
  by (induction p) simp_all

text \<open>Nothing is replaced in a string in which \<open>old\<close> does not occur.\<close>

lemma str_replace_absent:
  "old \<noteq> [] \<Longrightarrow> \<forall>i. \<not> str_startswith (drop i s) old \<Longrightarrow> str_replace old new s = s"
proof (induction s)
  case Nil
  then show ?case by simp
next
  case (Cons c cs)
  from Cons.prems(2) have here: "\<not> str_startswith (c # cs) old"
    by (metis drop0)
  have "\<forall>i. \<not> str_startswith (drop i cs) old"
  proof
    fix i
    from Cons.prems(2) have "\<not> str_startswith (drop (Suc i) (c # cs)) old" by blast
    then show "\<not> str_startswith (drop i cs) old" by simp
  qed
  with Cons.IH Cons.prems(1) have "str_replace old new cs = cs" by blast
  with here Cons.prems(1) show ?case by simp
qed

lemma str_replace_prefix:
  assumes "old \<noteq> []" and "\<forall>i. \<not> str_startswith (drop i rest) old"
  shows "str_replace old '''' (old @ rest) = rest"
proof -
  from assms(1) obtain c cs where old: "old = c # cs" by (cases old) auto
  have "str_replace old '''' (old @ rest) = str_replace old '''' (drop (length old) (old @ rest))"
    using str_startswith_append [of old rest] unfolding old by simp
  with assms show ?thesis by (simp add: str_replace_absent)
qed

text \<open>
  What \<open>get_data\<close> returns when the get command has returned the output \<open>out\<close>: the
  password is the first line (the text before the first newline), stripped; the username
  is made of the first line that starts with \<open>Username:\<close> by \<open>replace\<close>, and is empty
  when there is no such line. \<open>replace\<close> leaves what follows the prefix \<open>Username: \<close>
  when the line starts with it and it occurs nowhere else in the line.
\<close>

lemma get_data_result:
  assumes "stdout (run env (get_command name folder)) = out"
  shows "get_data env name folder =
     ([Run (get_command name folder)],
      Inr \<lparr>username =
             (case find (\<lambda>l. str_startswith l ''Username:'') (str_split NL out) of
                None \<Rightarrow> ''''
              | Some l \<Rightarrow> str_replace ''Username: '' '''' l),
           password = str_strip (takeWhile (\<lambda>c. c \<noteq> NL) out)\<rparr>)"
proof -
  from hd_str_split [of NL out] obtain more
    where "str_split NL out = takeWhile (\<lambda>c. c \<noteq> NL) out # more" ..
  with assms have "get_data env name folder =
     ([Run (get_command name folder)],
      Inr \<lparr>username = extract_username (str_split NL out),
           password = str_strip (takeWhile (\<lambda>c. c \<noteq> NL) out)\<rparr>)"
    by (simp add: get_data_def)
  then show ?thesis
    by (simp only: extract_username_find)
qed

text \<open>
  Claim C4. The claim is that the password is the first line, stripped, and the username
  is what follows the prefix \<open>Username: \<close> in the first line that starts with
  \<open>Username:\<close>. The code does that for the output of the specification's example, which
  gives the username \<open>bob\<close> and the password \<open>secretpw\<close>, but not for every output:
  \<open>extract_username\<close> takes the prefix off with \<open>replace\<close>, which removes the text
  \<open>Username: \<close> wherever it occurs in the line. For the line
  \<open>Username: a Username: b\<close> what follows the prefix is \<open>a Username: b\<close>, and the
  username returned is \<open>a b\<close>.
\<close>

theorem get_data_username_replaced:
  "stdout (run store_env (get_command ''user1'' ''Work''))
     = ''secretpw'' @ [NL] @ ''Username: bob'' @ [NL]
   \<and> snd (get_data store_env ''user1'' ''Work'')
     = Inr \<lparr>username = ''bob'', password = ''secretpw''\<rparr>
   \<and> stdout (run repeated_env (get_command ''user1'' ''Work''))
     = ''secretpw'' @ [NL] @ ''Username: a Username: b'' @ [NL]
   \<and> snd (get_data repeated_env ''user1'' ''Work'')
     = Inr \<lparr>username = ''a b'', password = ''secretpw''\<rparr>
   \<and> drop (length ''Username: '') ''Username: a Username: b'' = ''a Username: b''"
  by (simp add: store_env_def repeated_env_def sample_env_def exited_def get_command_def
      ls_command_def get_data_def str_strip_def isspace_def)

subsection \<open>Exit statuses of the store commands\<close>

lemma entries_text_returncode:
  "entries_text (env\<lparr>run := (\<lambda>command. (run env command)\<lparr>returncode := status\<rparr>)\<rparr>) = entries_text env"
  by (simp add: entries_text_def)

text \<open>
  Claim C6, as amended. \<open>main\<close> does not read the exit status of the listing command:
  a run is the same whatever the status is, and in every run the entries made of the
  command's standard output are shown to the selector.
\<close>

theorem main_ignores_listing_status:
  "main (env\<lparr>run := (\<lambda>command. (run env command)\<lparr>returncode := status\<rparr>)\<rparr>) self = main env self
   \<and> fst (main env self) =
       [Run ls_command,
        ShowSelection (the_selector self)
          (str_join [NL] (entries_of_stdout (stdout (run env ls_command))))
          (prompt (args self)) (show_help (args self)) (rofi_args (args self))]"
  by (simp add: main_result selection_def selection_call_def entries_text_returncode)
     (simp add: entries_text_def)

text \<open>
  The claim as it is written fails for a listing command that prints the record
  \<open>a<TAB>b\<close> and exits with status 1: the selector is shown \<open>a/b\<close>, and when the user
  cancels there the program ends with status 0.
\<close>

theorem listing_failure_counterexample:
  "returncode (run failed_ls_env ls_command) = 1
   \<and> main failed_ls_env sample_self =
       ([Run ls_command, ShowSelection ''rofi'' ''a/b'' ''Select entry'' True []],
        Inl (SystemExit None))
   \<and> exit_status (snd (main failed_ls_env sample_self)) = 0"
  by (simp add: main_def selection_def selection_call_def entries_text_def
      entries_of_stdout_def listing_stdout_def str_strip_def isspace_def
      choose_action_from_return_code_def failed_ls_env_def sample_env_def exited_def
      sample_self_def)

text \<open>
  Claim C7, as amended. When the get command has returned, with a status that is not 0
  or with an empty output, \<open>get_data\<close> does not fail for that: it does not read the
  status, and it returns the credential made of the command's standard output as it
  does after a status of 0. For an empty output that is the credential with an empty
  username and an empty password.
\<close>

theorem get_data_ignores_status:
  assumes "run env (get_command name folder) = p"
  shows "(returncode p \<noteq> 0 \<or> stdout p = '''' \<longrightarrow>
            get_data env name folder =
              ([Run (get_command name folder)],
               Inr \<lparr>username = extract_username (str_split NL (stdout p)),
                    password = str_strip (takeWhile (\<lambda>c. c \<noteq> NL) (stdout p))\<rparr>))
         \<and> (stdout p = '''' \<longrightarrow>
            get_data env name folder =
              ([Run (get_command name folder)], Inr \<lparr>username = '''', password = ''''\<rparr>))
         \<and> get_data (env\<lparr>run := (\<lambda>command. (run env command)\<lparr>returncode := status\<rparr>)\<rparr>)
              name folder = get_data env name folder"
proof -
  from hd_str_split [of NL "stdout p"] obtain more
    where "str_split NL (stdout p) = takeWhile (\<lambda>c. c \<noteq> NL) (stdout p) # more" ..
  with assms have made: "get_data env name folder =
      ([Run (get_command name folder)],
       Inr \<lparr>username = extract_username (str_split NL (stdout p)),
            password = str_strip (takeWhile (\<lambda>c. c \<noteq> NL) (stdout p))\<rparr>)"
    by (simp add: get_data_def)
  from assms have silent: "stdout p = '''' \<longrightarrow>
      get_data env name folder =
        ([Run (get_command name folder)], Inr \<lparr>username = '''', password = ''''\<rparr>)"
    by (auto simp: get_data_def str_strip_def)
  have "get_data (env\<lparr>run := (\<lambda>command. (run env command)\<lparr>returncode := status\<rparr>)\<rparr>)
      name folder = get_data env name folder"
    by (simp add: get_data_def)
  with made silent show ?thesis by blast
qed

theorem get_data_ignores_status_witness:
  "run failed_get_env (get_command ''user1'' ''Work'') = exited 1 ''''
   \<and> returncode (exited 1 '''') \<noteq> 0
   \<and> stdout (exited 1 '''') = ''''
   \<and> get_data failed_get_env ''user1'' ''Work'' =
       ([Run (get_command ''user1'' ''Work'')], Inr \<lparr>username = '''', password = ''''\<rparr>)"
proof -
  have ran: "run failed_get_env (get_command ''user1'' ''Work'') = exited 1 ''''"
    by (simp add: failed_get_env_def sample_env_def get_command_def ls_command_def)
  have failed: "returncode (exited 1 '''') \<noteq> 0" and silent: "stdout (exited 1 '''') = ''''"
    by (simp_all add: exited_def)
  from get_data_ignores_status [OF ran] silent
  have "get_data failed_get_env ''user1'' ''Work'' =
       ([Run (get_command ''user1'' ''Work'')], Inr \<lparr>username = '''', password = ''''\<rparr>)"
    by blast
  with ran failed silent show ?thesis by blast
qed

text \<open>
  The claim as it is written fails for a get command that prints nothing and exits with
  status 1: \<open>get_data\<close> returns the credential of two empty strings.
\<close>

theorem fetch_failure_counterexample:
  "returncode (run failed_get_env (get_command ''user1'' ''Work'')) = 1
   \<and> stdout (run failed_get_env (get_command ''user1'' ''Work'')) = ''''
   \<and> get_data failed_get_env ''user1'' ''Work'' =
       ([Run [''rbw'', ''get'', ''--full'', ''user1'', ''--folder'', ''Work'']],
        Inr \<lparr>username = '''', password = ''''\<rparr>)"
  by (simp add: get_data_def get_command_def ls_command_def str_strip_def
      failed_get_env_def sample_env_def exited_def)

subsection \<open>From the picked line to the fetch\<close>

text \<open>
  Claim C1. The claim is that a run whose selector did not return 1 fetches the
  credential with the name and the folder of the picked entry and executes the action.
  The code does not: the user picks \<open>Work/user1\<close> with exit code 0, the line is split
  into \<open>Work\<close> and \<open>user1\<close>, and \<open>get_data\<close>, which takes a name and a folder, is
  called with the one argument \<open>user1\<close>. The run ends with \<open>TypeError\<close>; no get command
  has run and nothing has been typed or copied.
\<close>

theorem main_fetch_missing_folder:
  "selection store_env sample_self = (0, ''Work/user1'' @ [NL])
   \<and> str_rsplit1 (CHR ''/'') (''Work/user1'' @ [NL]) = [''Work'', ''user1'' @ [NL]]
   \<and> main store_env sample_self =
       ([Run ls_command, ShowSelection ''rofi'' ''Work/user1'' ''Select entry'' True []],
        Inl TypeError)"
  by (simp add: main_def selection_def selection_call_def entries_text_def
      entries_of_stdout_def listing_stdout_def str_strip_def isspace_def
      choose_action_from_return_code_def str_rsplit1_def get_data_call_def
      store_env_def sample_env_def exited_def sample_self_def)

text \<open>
  Claim C3. The claim is that a picked line without \<open>/\<close> gives an empty folder and
  the whole line as the name, and a get command without \<open>--folder\<close>. The code does
  build that command for an empty folder, but a run never comes to it: the user picks
  \<open>alice\<close> with exit code 0, \<open>rsplit\<close> returns the line alone, and unpacking it into a
  folder and a name ends the run with \<open>ValueError\<close>.
\<close>

theorem main_entry_without_folder:
  "selection plain_env sample_self = (0, ''alice'' @ [NL])
   \<and> str_rsplit1 (CHR ''/'') (''alice'' @ [NL]) = [''alice'' @ [NL]]
   \<and> main plain_env sample_self =
       ([Run ls_command, ShowSelection ''rofi'' ''alice'' ''Select entry'' True []],
        Inl ValueError)
   \<and> get_command ''alice'' '''' = [''rbw'', ''get'', ''--full'', ''alice'']"
  by (simp add: main_def selection_def selection_call_def entries_text_def
      entries_of_stdout_def listing_stdout_def str_strip_def isspace_def
      choose_action_from_return_code_def str_rsplit1_def get_data_call_def get_command_def
      plain_env_def sample_env_def exited_def sample_self_def)

end
